theory Spec2Isabelle
  imports
    Main
    "HOL-Library.FSet"
    "HOL-Library.Finite_Map"
    "HOL-Library.Option_ord"
    "HOL-Library.Product_Lexorder"
    "HOL-Library.List_Lexorder"
    "HOL-Library.Char_ord"
begin

section \<open>Data model of composable\_paxos.py\<close>

text \<open>
  \<^verbatim>\<open>ProposalID = collections.namedtuple('ProposalID', ['number', 'uid'])\<close> is a Python
  tuple, compared lexicographically: the pair order of \<open>Product_Lexorder\<close>. Node uids are
  any linearly ordered type (strings in the module's own examples), numbers are Python's
  unbounded integers.

  The source file holds non-ASCII text and no encoding declaration, so it is a Python 3
  module. The module compares identifiers with attributes that may still be \<^verbatim>\<open>None\<close>
  (\<^verbatim>\<open>msg.proposal_id >= self.promised_id\<close>, \<^verbatim>\<open>msg.last_accepted_id > self.highest_accepted_id\<close>,
  \<^verbatim>\<open>msg.proposal_id >= self.final_proposal_id\<close>, \<^verbatim>\<open>msg.proposal_id <= last_pn\<close>). In
  Python 3 an ordering comparison between a tuple and \<^verbatim>\<open>None\<close>, or between \<^verbatim>\<open>None\<close> and
  \<^verbatim>\<open>None\<close>, raises TypeError: every such comparison is a \<open>case\<close> on the optional
  operands, with TypeError for an absent one. The order of \<open>Option_ord\<close> on \<open>'a option\<close>
  (\<open>None\<close> below every \<open>Some x\<close>) appears in the statements of invariants only, never
  in the functions.

  A value (\<open>proposal_value\<close>, \<open>value\<close>, \<open>final_value\<close>) is any Python object, \<^verbatim>\<open>None\<close>
  included: it is a \<open>'v option\<close>, with \<open>None\<close> for \<^verbatim>\<open>None\<close>.
\<close>

type_synonym 'u ProposalID = "int \<times> 'u"

definition number :: "'u ProposalID \<Rightarrow> int" where
  "number pid = fst pid"

definition uid :: "'u ProposalID \<Rightarrow> 'u" where
  "uid pid = snd pid"

text \<open>
  The six message classes. Field order is the order of the constructor arguments in the
  source: \<open>Prepare from_uid proposal_id\<close>, \<open>Nack from_uid proposer_uid proposal_id
  promised_proposal_id\<close>, \<open>Promise from_uid proposer_uid proposal_id last_accepted_id
  last_accepted_value\<close>, \<open>Accept from_uid proposal_id proposal_value\<close>,
  \<open>Accepted from_uid proposal_id proposal_value\<close>, \<open>Resolution from_uid value\<close>.
  Of the identifiers only \<open>last_accepted_id\<close> of a Promise may be \<^verbatim>\<open>None\<close>.
\<close>

datatype ('u, 'v) message =
    Prepare 'u "'u ProposalID"
  | Nack 'u 'u "'u ProposalID" "'u ProposalID"
  | Promise 'u 'u "'u ProposalID" "'u ProposalID option" "'v option"
  | Accept 'u "'u ProposalID" "'v option"
  | Accepted 'u "'u ProposalID" "'v option"
  | Resolution 'u "'v option"

text \<open>
  Exceptions are values. \<open>InvalidMessageError\<close> is the module's own class; the others are
  the built-in exceptions that the statements of the module raise (an ordering
  comparison with \<^verbatim>\<open>None\<close>, a membership test, a method call or a subscript on \<^verbatim>\<open>None\<close>,
  a missing key) and the failed \<^verbatim>\<open>assert\<close> of the Learner.
\<close>

datatype error = InvalidMessageError | TypeError | AttributeError | KeyError | AssertionError

text \<open>
  A call either raises or returns a message or \<^verbatim>\<open>None\<close>. Every handler returns the object
  as the call leaves it together with this outcome, so an exception raised after some
  assignments keeps them.
\<close>

datatype ('u, 'v) outcome = Raise error | Return "('u, 'v) message option"

subsection \<open>Proposer\<close>

record ('u, 'v) Proposer =
  network_uid :: 'u
  quorum_size :: int
  leader :: bool
  proposed_value :: "'v option"
  proposal_id :: "'u ProposalID"
  highest_proposal_id :: "'u ProposalID"
  highest_accepted_id :: "'u ProposalID option"
  promises_received :: "'u fset option"
  nacks_received :: "'u fset option"
  current_prepare_msg :: "('u, 'v) message option"
  current_accept_msg :: "('u, 'v) message option"

definition Proposer_init :: "'u \<Rightarrow> int \<Rightarrow> ('u, 'v) Proposer" where
  "Proposer_init nuid q =
     \<lparr> Proposer.network_uid = nuid, Proposer.quorum_size = q, leader = False,
       proposed_value = None, proposal_id = (0, nuid), highest_proposal_id = (0, nuid),
       highest_accepted_id = None, promises_received = None, nacks_received = None,
       current_prepare_msg = None, current_accept_msg = None \<rparr>"

definition propose_value ::
  "('u, 'v) Proposer \<Rightarrow> 'v option \<Rightarrow> ('u, 'v) Proposer \<times> ('u, 'v) outcome" where
  "propose_value p v =
     (case proposed_value p of
        Some _ \<Rightarrow> (p, Return None)
      | None \<Rightarrow>
          (let p1 = p\<lparr>proposed_value := v\<rparr> in
           if leader p1 then
             (let m = Accept (Proposer.network_uid p1) (proposal_id p1) v;
                  p2 = p1\<lparr>current_accept_msg := Some m\<rparr>
              in (p2, Return (Some m)))
           else (p1, Return None)))"

definition prepare :: "('u, 'v) Proposer \<Rightarrow> ('u, 'v) Proposer \<times> ('u, 'v) message" where
  "prepare p =
     (let p1 = p\<lparr>leader := False\<rparr>;
          p2 = p1\<lparr>promises_received := Some {||}\<rparr>;
          p3 = p2\<lparr>nacks_received := Some {||}\<rparr>;
          p4 = p3\<lparr>proposal_id := (number (highest_proposal_id p3) + 1, Proposer.network_uid p3)\<rparr>;
          p5 = p4\<lparr>highest_proposal_id := proposal_id p4\<rparr>;
          p6 = p5\<lparr>current_prepare_msg := Some (Prepare (Proposer.network_uid p5) (proposal_id p5))\<rparr>
      in (p6, Prepare (Proposer.network_uid p5) (proposal_id p5)))"

definition observe_proposal ::
  "('u::linorder, 'v) Proposer \<Rightarrow> 'u ProposalID \<Rightarrow> ('u, 'v) Proposer" where
  "observe_proposal p pid =
     (if pid > highest_proposal_id p then p\<lparr>highest_proposal_id := pid\<rparr> else p)"

text \<open>
  \<open>receive_nack\<close> and \<open>receive_promise\<close> take the fields of the message in constructor
  order. In \<open>receive_nack\<close> the test \<^verbatim>\<open>self.nacks_received is not None\<close> is the \<open>case\<close>
  on \<open>nacks_received\<close>.
\<close>

definition receive_nack ::
  "('u::linorder, 'v) Proposer \<Rightarrow> 'u \<Rightarrow> 'u \<Rightarrow> 'u ProposalID \<Rightarrow> 'u ProposalID
     \<Rightarrow> ('u, 'v) Proposer \<times> ('u, 'v) outcome" where
  "receive_nack p from_uid proposer_uid pid promised_proposal_id =
     (let p1 = observe_proposal p promised_proposal_id in
      if pid = proposal_id p1 then
        (case nacks_received p1 of
           None \<Rightarrow> (p1, Return None)
         | Some ns \<Rightarrow>
             (let p2 = p1\<lparr>nacks_received := Some (finsert from_uid ns)\<rparr> in
              if int (fcard (finsert from_uid ns)) = Proposer.quorum_size p2 then
                (case prepare p2 of (p3, m) \<Rightarrow> (p3, Return (Some m)))
              else (p2, Return None)))
      else (p1, Return None))"

text \<open>
  Lines 222 to 226 of \<open>receive_promise\<close>, the quorum test:
  \<^verbatim>\<open>
  if len(self.promises_received) == self.quorum_size:
      self.leader = True
      if self.proposed_value is not None:
          self.current_accept_msg = Accept(self.network_uid, self.proposal_id, self.proposed_value)
          return self.current_accept_msg
  \<close>
  It runs with \<open>promises_received\<close> a set; \<open>n\<close> is the size of that set.
\<close>

definition promise_quorum ::
  "('u, 'v) Proposer \<Rightarrow> nat \<Rightarrow> ('u, 'v) Proposer \<times> ('u, 'v) outcome" where
  "promise_quorum p n =
     (if int n = Proposer.quorum_size p then
        (let p1 = p\<lparr>leader := True\<rparr> in
         case proposed_value p1 of
           Some v \<Rightarrow>
             (let m = Accept (Proposer.network_uid p1) (proposal_id p1) (Some v)
              in (p1\<lparr>current_accept_msg := Some m\<rparr>, Return (Some m)))
         | None \<Rightarrow> (p1, Return None))
      else (p, Return None))"

text \<open>
  In \<open>receive_promise\<close> the third conjunct \<^verbatim>\<open>msg.from_uid not in self.promises_received\<close>
  is evaluated only when the first two hold, and raises TypeError when
  \<open>promises_received\<close> is still \<^verbatim>\<open>None\<close>. Line 218,
  \<^verbatim>\<open>if msg.last_accepted_id > self.highest_accepted_id\<close>, runs after \<open>from_uid\<close> was
  added and raises TypeError when either identifier is \<^verbatim>\<open>None\<close>.
\<close>

definition receive_promise ::
  "('u::linorder, 'v) Proposer \<Rightarrow> 'u \<Rightarrow> 'u \<Rightarrow> 'u ProposalID \<Rightarrow> 'u ProposalID option \<Rightarrow> 'v option
     \<Rightarrow> ('u, 'v) Proposer \<times> ('u, 'v) outcome" where
  "receive_promise p from_uid proposer_uid pid last_accepted_id last_accepted_value =
     (let p1 = observe_proposal p pid in
      if \<not> leader p1 \<and> pid = proposal_id p1 then
        (case promises_received p1 of
           None \<Rightarrow> (p1, Raise TypeError)
         | Some ps \<Rightarrow>
             if from_uid |\<notin>| ps then
               (let p2 = p1\<lparr>promises_received := Some (finsert from_uid ps)\<rparr> in
                case last_accepted_id of
                  None \<Rightarrow> (p2, Raise TypeError)
                | Some la \<Rightarrow>
                    (case highest_accepted_id p2 of
                       None \<Rightarrow> (p2, Raise TypeError)
                     | Some ha \<Rightarrow>
                         (let p3 = (if la > ha then
                                      (let p2a = p2\<lparr>highest_accepted_id := Some la\<rparr> in
                                       case last_accepted_value of
                                         Some v \<Rightarrow> p2a\<lparr>proposed_value := Some v\<rparr>
                                       | None \<Rightarrow> p2a)
                                    else p2)
                          in promise_quorum p3 (fcard (finsert from_uid ps)))))
             else (p1, Return None))
      else (p1, Return None))"

text \<open>
  \<open>MessageHandler.receive\<close> looks the handler up by the lower-cased class name of the
  message and raises \<open>InvalidMessageError\<close>, before anything else runs, when the object has
  no attribute of that name. A Proposer defines \<open>receive_nack\<close> and \<open>receive_promise\<close>.
\<close>

definition Proposer_receive ::
  "('u::linorder, 'v) Proposer \<Rightarrow> ('u, 'v) message \<Rightarrow> ('u, 'v) Proposer \<times> ('u, 'v) outcome" where
  "Proposer_receive p msg =
     (case msg of
        Nack f pu pid pr \<Rightarrow> receive_nack p f pu pid pr
      | Promise f pu pid la lv \<Rightarrow> receive_promise p f pu pid la lv
      | _ \<Rightarrow> (p, Raise InvalidMessageError))"

subsection \<open>Acceptor\<close>

record ('u, 'v) Acceptor =
  network_uid :: 'u
  promised_id :: "'u ProposalID option"
  accepted_id :: "'u ProposalID option"
  accepted_value :: "'v option"

definition Acceptor_init ::
  "'u \<Rightarrow> 'u ProposalID option \<Rightarrow> 'u ProposalID option \<Rightarrow> 'v option \<Rightarrow> ('u, 'v) Acceptor" where
  "Acceptor_init nuid pr ai av =
     \<lparr> Acceptor.network_uid = nuid, promised_id = pr, accepted_id = ai, accepted_value = av \<rparr>"

text \<open>
  \<^verbatim>\<open>msg.proposal_id >= self.promised_id\<close> raises TypeError while \<open>promised_id\<close> is
  \<^verbatim>\<open>None\<close>, before anything is assigned. So the \<^verbatim>\<open>else\<close> branch runs with a present
  \<open>promised_id\<close>, which the Nack carries.
\<close>

definition receive_prepare ::
  "('u::linorder, 'v) Acceptor \<Rightarrow> 'u \<Rightarrow> 'u ProposalID \<Rightarrow> ('u, 'v) Acceptor \<times> ('u, 'v) outcome" where
  "receive_prepare a from_uid pid =
     (case promised_id a of
        None \<Rightarrow> (a, Raise TypeError)
      | Some pr \<Rightarrow>
          if pid \<ge> pr then
            (let a1 = a\<lparr>promised_id := Some pid\<rparr> in
             (a1, Return (Some (Promise (Acceptor.network_uid a1) from_uid pid
                                  (accepted_id a1) (accepted_value a1)))))
          else (a, Return (Some (Nack (Acceptor.network_uid a) from_uid pid pr))))"

definition receive_accept ::
  "('u::linorder, 'v) Acceptor \<Rightarrow> 'u \<Rightarrow> 'u ProposalID \<Rightarrow> 'v option
     \<Rightarrow> ('u, 'v) Acceptor \<times> ('u, 'v) outcome" where
  "receive_accept a from_uid pid v =
     (case promised_id a of
        None \<Rightarrow> (a, Raise TypeError)
      | Some pr \<Rightarrow>
          if pid \<ge> pr then
            (let a1 = a\<lparr>promised_id := Some pid\<rparr>;
                 a2 = a1\<lparr>accepted_id := Some pid\<rparr>;
                 a3 = a2\<lparr>accepted_value := v\<rparr>
             in (a3, Return (Some (Accepted (Acceptor.network_uid a3) pid v))))
          else (a, Return (Some (Nack (Acceptor.network_uid a) from_uid pid pr))))"

text \<open>An Acceptor defines \<open>receive_prepare\<close> and \<open>receive_accept\<close>.\<close>

definition Acceptor_receive ::
  "('u::linorder, 'v) Acceptor \<Rightarrow> ('u, 'v) message \<Rightarrow> ('u, 'v) Acceptor \<times> ('u, 'v) outcome" where
  "Acceptor_receive a msg =
     (case msg of
        Prepare f pid \<Rightarrow> receive_prepare a f pid
      | Accept f pid v \<Rightarrow> receive_accept a f pid v
      | _ \<Rightarrow> (a, Raise InvalidMessageError))"




subsection \<open>Learner\<close>

record ('u, 'v) ProposalStatus =
  accept_count :: int
  retain_count :: int
  acceptors :: "'u fset"
  "value" :: "'v option"

definition ProposalStatus_init :: "'v option \<Rightarrow> ('u, 'v) ProposalStatus" where
  "ProposalStatus_init v =
     \<lparr> accept_count = 0, retain_count = 0, ProposalStatus.acceptors = {||}, value = v \<rparr>"

text \<open>
  The two dictionaries are finite maps; both become \<^verbatim>\<open>None\<close> at resolution, hence the
  options. Each ProposalStatus object is referenced from one key of \<open>proposals\<close> only, so
  mutating it in place is updating the map at that key.
\<close>

record ('u, 'v) Learner =
  network_uid :: 'u
  quorum_size :: int
  proposals :: "('u ProposalID, ('u, 'v) ProposalStatus) fmap option"
  acceptors :: "('u, 'u ProposalID) fmap option"
  final_value :: "'v option"
  final_acceptors :: "'u fset option"
  final_proposal_id :: "'u ProposalID option"


text \<open>
  Lines 323 to 328 of the source, the revocation of the acceptor's previous vote:
  \<^verbatim>\<open>
  if last_pn is not None:
      ps = self.proposals[ last_pn ]
      ps.retain_count -= 1
      ps.acceptors.remove(msg.from_uid)
      if ps.retain_count == 0:
          del self.proposals[ last_pn ]
  \<close>
  The second component is the exception raised, if any: a subscript on \<^verbatim>\<open>None\<close>
  (TypeError), a missing key of the dictionary or a missing element of the set (KeyError).
\<close>

definition revoke_vote ::
  "('u, 'v) Learner \<Rightarrow> 'u \<Rightarrow> 'u ProposalID option \<Rightarrow> ('u, 'v) Learner \<times> error option" where
  "revoke_vote l from_uid last_pn =
     (case last_pn of
        None \<Rightarrow> (l, None)
      | Some lp \<Rightarrow>
          (case proposals l of
             None \<Rightarrow> (l, Some TypeError)
           | Some P \<Rightarrow>
               (case fmlookup P lp of
                  None \<Rightarrow> (l, Some KeyError)
                | Some ps \<Rightarrow>
                    (let ps1 = ps\<lparr>retain_count := retain_count ps - 1\<rparr> in
                     if from_uid |\<notin>| ProposalStatus.acceptors ps1 then
                       (l\<lparr>proposals := Some (fmupd lp ps1 P)\<rparr>, Some KeyError)
                     else
                       (let ps2 = ps1\<lparr>ProposalStatus.acceptors :=
                                        ProposalStatus.acceptors ps1 |-| {|from_uid|}\<rparr>
                        in if retain_count ps2 = 0 then
                             (l\<lparr>proposals := Some (fmdrop lp (fmupd lp ps2 P))\<rparr>, None)
                           else (l\<lparr>proposals := Some (fmupd lp ps2 P)\<rparr>, None))))))"

text \<open>
  Lines 329 to 342, the count of the new vote and the resolution:
  \<^verbatim>\<open>
  if not msg.proposal_id in self.proposals:
      self.proposals[ msg.proposal_id ] = Learner.ProposalStatus(msg.proposal_value)
  ps = self.proposals[ msg.proposal_id ]
  assert msg.proposal_value == ps.value, 'Value mismatch for single proposal!'
  ps.accept_count += 1
  ps.retain_count += 1
  ps.acceptors.add(msg.from_uid)
  if ps.accept_count == self.quorum_size:
      self.final_proposal_id = msg.proposal_id
      self.final_value       = msg.proposal_value
      self.final_acceptors   = ps.acceptors
      self.proposals         = None
      self.acceptors         = None
      return Resolution( self.network_uid, self.final_value )
  \<close>
\<close>

definition count_vote ::
  "('u, 'v) Learner \<Rightarrow> 'u \<Rightarrow> 'u ProposalID \<Rightarrow> 'v option
     \<Rightarrow> ('u, 'v) Learner \<times> ('u, 'v) outcome" where
  "count_vote l from_uid pid v =
     (case proposals l of
        None \<Rightarrow> (l, Raise TypeError)
      | Some P \<Rightarrow>
          (let P1 = (case fmlookup P pid of
                       None \<Rightarrow> fmupd pid (ProposalStatus_init v) P
                     | Some _ \<Rightarrow> P);
               ps = (case fmlookup P pid of
                       None \<Rightarrow> ProposalStatus_init v
                     | Some ps0 \<Rightarrow> ps0);
               l1 = l\<lparr>proposals := Some P1\<rparr>
           in if v \<noteq> value ps then (l1, Raise AssertionError)
              else
                (let ps1 = ps\<lparr>accept_count := accept_count ps + 1\<rparr>;
                     ps2 = ps1\<lparr>retain_count := retain_count ps1 + 1\<rparr>;
                     ps3 = ps2\<lparr>ProposalStatus.acceptors :=
                                  finsert from_uid (ProposalStatus.acceptors ps2)\<rparr>;
                     l2 = l1\<lparr>proposals := Some (fmupd pid ps3 P1)\<rparr>
                 in if accept_count ps3 = Learner.quorum_size l2 then
                      (l2\<lparr>final_proposal_id := Some pid, final_value := v,
                          final_acceptors := Some (ProposalStatus.acceptors ps3),
                          proposals := None, Learner.acceptors := None\<rparr>,
                       Return (Some (Resolution (Learner.network_uid l2) v)))
                    else (l2, Return None))))"

text \<open>
  \<open>receive_accepted\<close>, with the fields of the Accepted message in constructor order.
  Lines 313 to 316 are the first branch: \<^verbatim>\<open>msg.proposal_id >= self.final_proposal_id\<close>
  is evaluated first and raises TypeError on an absent \<open>final_proposal_id\<close>. Lines 318
  to 321 are the staleness test and the update of \<open>acceptors\<close>:
  \<^verbatim>\<open>msg.proposal_id <= last_pn\<close> raises TypeError when the sender has no earlier vote
  (\<open>last_pn\<close> is \<^verbatim>\<open>None\<close>), before anything is assigned.
\<close>

definition receive_accepted ::
  "('u::linorder, 'v) Learner \<Rightarrow> 'u \<Rightarrow> 'u ProposalID \<Rightarrow> 'v option
     \<Rightarrow> ('u, 'v) Learner \<times> ('u, 'v) outcome" where
  "receive_accepted l from_uid pid v =
     (case final_value l of
        Some fv \<Rightarrow>
          (case final_proposal_id l of
             None \<Rightarrow> (l, Raise TypeError)
           | Some fp \<Rightarrow>
               if pid \<ge> fp \<and> v = Some fv then
                 (case final_acceptors l of
                    None \<Rightarrow> (l, Raise AttributeError)
                  | Some fa \<Rightarrow>
                      (l\<lparr>final_acceptors := Some (finsert from_uid fa)\<rparr>,
                       Return (Some (Resolution (Learner.network_uid l) (Some fv)))))
               else (l, Return (Some (Resolution (Learner.network_uid l) (Some fv)))))
      | None \<Rightarrow>
          (case Learner.acceptors l of
             None \<Rightarrow> (l, Raise AttributeError)
           | Some A \<Rightarrow>
               (let last_pn = fmlookup A from_uid in
                case last_pn of
                  None \<Rightarrow> (l, Raise TypeError)
                | Some lp \<Rightarrow>
                    if pid \<le> lp then (l, Return None)
                    else
                      (let l1 = l\<lparr>Learner.acceptors := Some (fmupd from_uid pid A)\<rparr> in
                       case revoke_vote l1 from_uid last_pn of
                         (l2, Some e) \<Rightarrow> (l2, Raise e)
                       | (l2, None) \<Rightarrow> count_vote l2 from_uid pid v))))"

text \<open>A Learner defines \<open>receive_accepted\<close> only.\<close>

definition Learner_receive ::
  "('u::linorder, 'v) Learner \<Rightarrow> ('u, 'v) message \<Rightarrow> ('u, 'v) Learner \<times> ('u, 'v) outcome" where
  "Learner_receive l msg =
     (case msg of
        Accepted f pid v \<Rightarrow> receive_accepted l f pid v
      | _ \<Rightarrow> (l, Raise InvalidMessageError))"






subsection \<open>PaxosInstance\<close>

text \<open>
  \<^verbatim>\<open>class PaxosInstance (Proposer, Acceptor, Learner)\<close> is one object with the attributes
  of the three roles. The roles assign disjoint attributes, except \<open>network_uid\<close> and
  \<open>quorum_size\<close>, which the three constructors set to the same values and no method
  assigns afterwards: the object is the three role states side by side.
  \<open>receive_prepare\<close> and \<open>receive_accept\<close> are overridden; \<^verbatim>\<open>super(PaxosInstance,self)\<close>
  resolves both to the Acceptor's methods. The other handlers are inherited.
\<close>

record ('u, 'v) PaxosInstance =
  proposer :: "('u, 'v) Proposer"
  acceptor :: "('u, 'v) Acceptor"
  learner :: "('u, 'v) Learner"


definition PaxosInstance_receive_prepare ::
  "('u::linorder, 'v) PaxosInstance \<Rightarrow> 'u \<Rightarrow> 'u ProposalID
     \<Rightarrow> ('u, 'v) PaxosInstance \<times> ('u, 'v) outcome" where
  "PaxosInstance_receive_prepare s from_uid pid =
     (let s1 = s\<lparr>proposer := observe_proposal (proposer s) pid\<rparr> in
      case receive_prepare (acceptor s1) from_uid pid of
        (a, r) \<Rightarrow> (s1\<lparr>acceptor := a\<rparr>, r))"

definition PaxosInstance_receive_accept ::
  "('u::linorder, 'v) PaxosInstance \<Rightarrow> 'u \<Rightarrow> 'u ProposalID \<Rightarrow> 'v option
     \<Rightarrow> ('u, 'v) PaxosInstance \<times> ('u, 'v) outcome" where
  "PaxosInstance_receive_accept s from_uid pid v =
     (let s1 = s\<lparr>proposer := observe_proposal (proposer s) pid\<rparr> in
      case receive_accept (acceptor s1) from_uid pid v of
        (a, r) \<Rightarrow> (s1\<lparr>acceptor := a\<rparr>, r))"

definition PaxosInstance_receive_promise ::
  "('u::linorder, 'v) PaxosInstance \<Rightarrow> 'u \<Rightarrow> 'u \<Rightarrow> 'u ProposalID \<Rightarrow> 'u ProposalID option
     \<Rightarrow> 'v option \<Rightarrow> ('u, 'v) PaxosInstance \<times> ('u, 'v) outcome" where
  "PaxosInstance_receive_promise s from_uid proposer_uid pid la lv =
     (case receive_promise (proposer s) from_uid proposer_uid pid la lv of
        (p, r) \<Rightarrow> (s\<lparr>proposer := p\<rparr>, r))"

definition PaxosInstance_receive_nack ::
  "('u::linorder, 'v) PaxosInstance \<Rightarrow> 'u \<Rightarrow> 'u \<Rightarrow> 'u ProposalID \<Rightarrow> 'u ProposalID
     \<Rightarrow> ('u, 'v) PaxosInstance \<times> ('u, 'v) outcome" where
  "PaxosInstance_receive_nack s from_uid proposer_uid pid pr =
     (case receive_nack (proposer s) from_uid proposer_uid pid pr of
        (p, r) \<Rightarrow> (s\<lparr>proposer := p\<rparr>, r))"

definition PaxosInstance_receive_accepted ::
  "('u::linorder, 'v) PaxosInstance \<Rightarrow> 'u \<Rightarrow> 'u ProposalID \<Rightarrow> 'v option
     \<Rightarrow> ('u, 'v) PaxosInstance \<times> ('u, 'v) outcome" where
  "PaxosInstance_receive_accepted s from_uid pid v =
     (case receive_accepted (learner s) from_uid pid v of
        (l, r) \<Rightarrow> (s\<lparr>learner := l\<rparr>, r))"

definition PaxosInstance_receive ::
  "('u::linorder, 'v) PaxosInstance \<Rightarrow> ('u, 'v) message
     \<Rightarrow> ('u, 'v) PaxosInstance \<times> ('u, 'v) outcome" where
  "PaxosInstance_receive s msg =
     (case msg of
        Prepare f pid \<Rightarrow> PaxosInstance_receive_prepare s f pid
      | Nack f pu pid pr \<Rightarrow> PaxosInstance_receive_nack s f pu pid pr
      | Promise f pu pid la lv \<Rightarrow> PaxosInstance_receive_promise s f pu pid la lv
      | Accept f pid v \<Rightarrow> PaxosInstance_receive_accept s f pid v
      | Accepted f pid v \<Rightarrow> PaxosInstance_receive_accepted s f pid v
      | Resolution f v \<Rightarrow> (s, Raise InvalidMessageError))"

subsection \<open>States given field by field\<close>


section \<open>Proposer\<close>



text \<open>
  No method of the Proposer changes an absent \<open>highest_accepted_id\<close>, and
  \<open>receive_promise\<close> does not make a Proposer leader while it is absent: line 218 raises
  first.
\<close>

lemma Proposer_highest_accepted_id:
  "highest_accepted_id (fst (propose_value p v)) = highest_accepted_id p"
  "highest_accepted_id (fst (prepare p)) = highest_accepted_id p"
  "highest_accepted_id (observe_proposal p pid) = highest_accepted_id p"
  "highest_accepted_id (fst (receive_nack p f pu pid pr)) = highest_accepted_id p"
  "highest_accepted_id p = None \<Longrightarrow>
     highest_accepted_id (fst (receive_promise p f pu pid la lv)) = None \<and>
     \<not> (leader (fst (receive_promise p f pu pid la lv)) \<and> \<not> leader p)"
  by (auto simp: propose_value_def prepare_def observe_proposal_def receive_nack_def
        receive_promise_def Let_def split: option.splits prod.splits)

text \<open>
  C2 says that a Promise for the current round from a new uid is counted, that an absent
  \<open>last_accepted_id\<close> or \<open>highest_accepted_id\<close> compares as smaller than a present id,
  and that at \<open>quorum_size\<close> promises the Proposer becomes leader and returns the Accept
  of its \<open>proposed_value\<close>. The code counts the uid and then raises TypeError at line 218
  when either identifier is absent. Proposer \<open>A\<close> with quorum size 1 has the value \<open>v\<close>
  and has prepared round \<open>(1, A)\<close>; the Promise of \<open>X\<close>, which reports no acceptance,
  reaches the quorum: the call raises, \<open>X\<close> is in \<open>promises_received\<close>, the Proposer is
  not leader and no Accept is returned.
\<close>

theorem receive_promise_raises:
  "receive_promise
     (fst (prepare (fst (propose_value (Proposer_init ''A'' 1 :: (string, string) Proposer)
                           (Some ''v'')))))
     ''X'' ''A'' (1, ''A'') None None =
   ((fst (prepare (fst (propose_value (Proposer_init ''A'' 1 :: (string, string) Proposer)
                           (Some ''v'')))))
      \<lparr>promises_received := Some {|''X''|}\<rparr>,
    Raise TypeError) \<and>
   \<not> leader (fst (receive_promise
     (fst (prepare (fst (propose_value (Proposer_init ''A'' 1 :: (string, string) Proposer)
                           (Some ''v'')))))
     ''X'' ''A'' (1, ''A'') None None)) \<and>
   proposed_value (fst (prepare (fst (propose_value
                     (Proposer_init ''A'' 1 :: (string, string) Proposer) (Some ''v''))))) =
     Some ''v'' \<and>
   proposal_id (fst (prepare (fst (propose_value
                     (Proposer_init ''A'' 1 :: (string, string) Proposer) (Some ''v''))))) =
     (1, ''A'') \<and>
   Proposer.quorum_size (fst (prepare (fst (propose_value
                     (Proposer_init ''A'' 1 :: (string, string) Proposer) (Some ''v''))))) = 1"
  by (simp add: receive_promise_def observe_proposal_def prepare_def propose_value_def
        Proposer_init_def number_def Let_def)

text \<open>
  C5. \<open>receive_nack\<close> always applies \<open>observe_proposal\<close> to \<open>promised_proposal_id\<close>. If
  \<open>nacks_received\<close> is uninitialised (no \<open>prepare\<close> yet) or the Nack is not for the current
  \<open>proposal_id\<close>, nothing else changes and nothing is returned. Otherwise \<open>from_uid\<close> is
  added to \<open>nacks_received\<close>; when its size is \<open>quorum_size\<close>, \<open>prepare\<close> runs on that
  state and its Prepare message is returned, and else nothing is returned.
\<close>

theorem receive_nack_effect:
  "(nacks_received p = None \<or> pid \<noteq> proposal_id p \<longrightarrow>
      receive_nack p from_uid proposer_uid pid pr = (observe_proposal p pr, Return None)) \<and>
   (nacks_received p = Some ns \<and> pid = proposal_id p \<longrightarrow>
      (let p2 = (observe_proposal p pr)\<lparr>nacks_received := Some (finsert from_uid ns)\<rparr> in
       if int (fcard (finsert from_uid ns)) = Proposer.quorum_size p
       then receive_nack p from_uid proposer_uid pid pr =
              (fst (prepare p2), Return (Some (snd (prepare p2))))
       else receive_nack p from_uid proposer_uid pid pr = (p2, Return None)))"
  by (auto simp: receive_nack_def observe_proposal_def Let_def split: prod.splits)

text \<open>
  A Nack before any \<open>prepare\<close> only raises \<open>highest_proposal_id\<close>; with quorum size 1,
  the first Nack for the current round starts round \<open>(6, A)\<close>.
\<close>

theorem receive_nack_effect_witness:
  "nacks_received (Proposer_init ''A'' 2 :: (string, string) Proposer) = None \<and>
   receive_nack (Proposer_init ''A'' 2 :: (string, string) Proposer) ''X'' ''A'' (0, ''A'') (5, ''Z'') =
     ((Proposer_init ''A'' 2)\<lparr>highest_proposal_id := (5, ''Z'')\<rparr>, Return None) \<and>
   nacks_received (fst (prepare (Proposer_init ''A'' 1 :: (string, string) Proposer))) = Some {||} \<and>
   (1, ''A'') = proposal_id (fst (prepare (Proposer_init ''A'' 1 :: (string, string) Proposer))) \<and>
   snd (receive_nack (fst (prepare (Proposer_init ''A'' 1 :: (string, string) Proposer)))
          ''X'' ''A'' (1, ''A'') (5, ''Z'')) =
     Return (Some (Prepare ''A'' (6, ''A'')))"
  using receive_nack_effect [where p = "Proposer_init ''A'' 2 :: (string, string) Proposer"
           and pid = "(0, ''A'')" and from_uid = "''X''" and proposer_uid = "''A''"
           and pr = "(5, ''Z'')"]
        receive_nack_effect [where p = "fst (prepare (Proposer_init ''A'' 1 :: (string, string) Proposer))"
           and ns = "{||}" and pid = "(1, ''A'')" and from_uid = "''X''" and proposer_uid = "''A''"
           and pr = "(5, ''Z'')"]
  by (simp add: prepare_def observe_proposal_def Proposer_init_def number_def Let_def
        fcard_finsert_if fcard_fempty)









section \<open>Acceptor\<close>










text \<open>
  C10. \<open>receive_prepare\<close> never changes \<open>accepted_id\<close> or \<open>accepted_value\<close>, in either
  branch; and whenever \<open>receive_prepare\<close> or \<open>receive_accept\<close> returns a Nack, the Acceptor
  is exactly as it was before the call.
\<close>

theorem Acceptor_frame:
  "accepted_id (fst (receive_prepare a f pid)) = accepted_id a \<and>
   accepted_value (fst (receive_prepare a f pid)) = accepted_value a \<and>
   (snd (receive_prepare a f pid) = Return (Some (Nack n pu p pr)) \<longrightarrow>
      fst (receive_prepare a f pid) = a) \<and>
   (snd (receive_accept a f pid v) = Return (Some (Nack n pu p pr)) \<longrightarrow>
      fst (receive_accept a f pid v) = a)"
  by (cases "promised_id a") (auto simp: receive_prepare_def receive_accept_def Let_def)

text \<open>The third scenario: \<open>(5, Z)\<close> is promised, \<open>(3, A)\<close> is refused.\<close>

theorem Acceptor_frame_witness:
  "snd (receive_prepare (Acceptor_init ''X'' (Some (5, ''Z'')) None (None :: string option))
          ''A'' (3, ''A'')) = Return (Some (Nack ''X'' ''A'' (3, ''A'') (5, ''Z''))) \<and>
   fst (receive_prepare (Acceptor_init ''X'' (Some (5, ''Z'')) None (None :: string option))
          ''A'' (3, ''A'')) = Acceptor_init ''X'' (Some (5, ''Z'')) None None \<and>
   snd (receive_accept (Acceptor_init ''X'' (Some (5, ''Z'')) None (None :: string option))
          ''A'' (3, ''A'') (Some ''v'')) = Return (Some (Nack ''X'' ''A'' (3, ''A'') (5, ''Z''))) \<and>
   fst (receive_accept (Acceptor_init ''X'' (Some (5, ''Z'')) None (None :: string option))
          ''A'' (3, ''A'') (Some ''v'')) = Acceptor_init ''X'' (Some (5, ''Z'')) None None"
  using Acceptor_frame [where a = "Acceptor_init ''X'' (Some (5, ''Z'')) None (None :: string option)"
          and f = "''A''" and pid = "(3, ''A'')" and n = "''X''" and pu = "''A''"
          and p = "(3, ''A'')" and pr = "(5, ''Z'')" and v = "Some ''v''"]
  by (simp add: receive_prepare_def receive_accept_def Acceptor_init_def Let_def)

section \<open>Learner\<close>





































section \<open>Dispatch and the composite instance\<close>

text \<open>
  C9. Every message variant a role has no handler for makes \<open>receive\<close> raise
  \<open>InvalidMessageError\<close> and leaves the object as it was: Prepare, Accept, Accepted and
  Resolution at a Proposer; Nack, Promise, Accepted and Resolution at an Acceptor; every
  variant but Accepted at a Learner; Resolution at the composite.
\<close>

theorem unhandled_message_raises:
  "Proposer_receive p (Prepare f pid) = (p, Raise InvalidMessageError) \<and>
   Proposer_receive p (Accept f pid v) = (p, Raise InvalidMessageError) \<and>
   Proposer_receive p (Accepted f pid v) = (p, Raise InvalidMessageError) \<and>
   Proposer_receive p (Resolution f v) = (p, Raise InvalidMessageError) \<and>
   Acceptor_receive a (Nack f pu pid pr) = (a, Raise InvalidMessageError) \<and>
   Acceptor_receive a (Promise f pu pid la lv) = (a, Raise InvalidMessageError) \<and>
   Acceptor_receive a (Accepted f pid v) = (a, Raise InvalidMessageError) \<and>
   Acceptor_receive a (Resolution f v) = (a, Raise InvalidMessageError) \<and>
   Learner_receive l (Prepare f pid) = (l, Raise InvalidMessageError) \<and>
   Learner_receive l (Nack f pu pid pr) = (l, Raise InvalidMessageError) \<and>
   Learner_receive l (Promise f pu pid la lv) = (l, Raise InvalidMessageError) \<and>
   Learner_receive l (Accept f pid v) = (l, Raise InvalidMessageError) \<and>
   Learner_receive l (Resolution f v) = (l, Raise InvalidMessageError) \<and>
   PaxosInstance_receive s (Resolution f v) = (s, Raise InvalidMessageError)"
  by (simp add: Proposer_receive_def Acceptor_receive_def Learner_receive_def
        PaxosInstance_receive_def)

text \<open>
  C8. At the composite, a Prepare or an Accept gets the reply of the standalone Acceptor
  on the acceptor fields and leaves them as that Acceptor would; besides, the proposer
  fields are those of \<open>observe_proposal\<close> on the message's \<open>proposal_id\<close>, which changes
  \<open>highest_proposal_id\<close> only, to the larger of the two ids. The learner fields are
  untouched. A Promise or a Nack does what the standalone Proposer does and touches the
  proposer fields only; an Accepted does what the standalone Learner does and touches the
  learner fields only.
\<close>

theorem PaxosInstance_refines_roles:
  "PaxosInstance_receive s (Prepare f pid) =
     (s\<lparr>proposer := observe_proposal (proposer s) pid,
        acceptor := fst (Acceptor_receive (acceptor s) (Prepare f pid))\<rparr>,
      snd (Acceptor_receive (acceptor s) (Prepare f pid))) \<and>
   PaxosInstance_receive s (Accept f pid v) =
     (s\<lparr>proposer := observe_proposal (proposer s) pid,
        acceptor := fst (Acceptor_receive (acceptor s) (Accept f pid v))\<rparr>,
      snd (Acceptor_receive (acceptor s) (Accept f pid v))) \<and>
   highest_proposal_id (observe_proposal (proposer s) pid) \<ge> pid \<and>
   observe_proposal (proposer s) pid =
     (proposer s)\<lparr>highest_proposal_id := max pid (highest_proposal_id (proposer s))\<rparr> \<and>
   PaxosInstance_receive s (Promise f pu pid la lv) =
     (s\<lparr>proposer := fst (Proposer_receive (proposer s) (Promise f pu pid la lv))\<rparr>,
      snd (Proposer_receive (proposer s) (Promise f pu pid la lv))) \<and>
   PaxosInstance_receive s (Nack f pu pid pr) =
     (s\<lparr>proposer := fst (Proposer_receive (proposer s) (Nack f pu pid pr))\<rparr>,
      snd (Proposer_receive (proposer s) (Nack f pu pid pr))) \<and>
   PaxosInstance_receive s (Accepted f pid v) =
     (s\<lparr>learner := fst (Learner_receive (learner s) (Accepted f pid v))\<rparr>,
      snd (Learner_receive (learner s) (Accepted f pid v)))"
  by (auto simp: PaxosInstance_receive_def PaxosInstance_receive_prepare_def
        PaxosInstance_receive_accept_def PaxosInstance_receive_promise_def
        PaxosInstance_receive_nack_def PaxosInstance_receive_accepted_def
        Acceptor_receive_def Proposer_receive_def Learner_receive_def
        observe_proposal_def Let_def max_def split: prod.splits)

section \<open>Idempotence of delivery\<close>




end
